theory Spec2Isabelle
  imports Main
begin

section \<open>Python values\<close>

text \<open>
  The values a caller can assign to a property. Only what the validators inspect matters:
  whether a value is \<open>None\<close>, a \<open>str\<close> (and then its characters) or a
  \<open>datetime\<close>. A \<open>str\<close> is a list of characters; the validators test only
  emptiness and the presence of the two ASCII characters \<open>@\<close> and \<open>.\<close>.
\<close>

datatype datetime = Datetime int int int int int int int

datatype pyval =
    PyNone
  | PyBool bool
  | PyInt int
  | PyStr string
  | PyDatetime datetime
  | PyList "pyval list"

text \<open>\<open>isinstance(value, str)\<close> and \<open>isinstance(value, datetime)\<close>.\<close>

fun isinstance_str :: "pyval \<Rightarrow> bool" where
  "isinstance_str (PyStr _) = True"
| "isinstance_str _ = False"

fun isinstance_datetime :: "pyval \<Rightarrow> bool" where
  "isinstance_datetime (PyDatetime _) = True"
| "isinstance_datetime _ = False"

text \<open>Truth value of an object, as \<open>not value\<close> tests it.\<close>

fun truthy :: "pyval \<Rightarrow> bool" where
  "truthy PyNone = False"
| "truthy (PyBool b) = b"
| "truthy (PyInt n) = (n \<noteq> 0)"
| "truthy (PyStr t) = (t \<noteq> [])"
| "truthy (PyDatetime _) = True"
| "truthy (PyList xs) = (xs \<noteq> [])"

text \<open>\<open>c in value\<close> for a one-character \<open>c\<close> and a \<open>str\<close> value.\<close>

fun str_contains :: "char \<Rightarrow> pyval \<Rightarrow> bool" where
  "str_contains c (PyStr t) = (c \<in> set t)"
| "str_contains c _ = False"

section \<open>Errors\<close>

text \<open>
  The validators raise \<open>ValueError\<close> with a message; it is the only exception of the
  module. An operation that may raise returns the outcome together with the state it
  leaves behind.
\<close>

datatype error = ValueError string

type_synonym outcome = "error + unit"

section \<open>The validators\<close>

definition validate_username :: "pyval \<Rightarrow> string \<Rightarrow> outcome" where
  "validate_username value name =
     (if \<not> isinstance_str value \<or> \<not> truthy value
      then Inl (ValueError (name @ '' must be a non-empty string''))
      else Inr ())"

definition validate_email :: "pyval \<Rightarrow> string \<Rightarrow> outcome" where
  "validate_email value name =
     (if \<not> isinstance_str value
      then Inl (ValueError (name @ '' must be a string''))
      else if \<not> str_contains (CHR ''@'') value \<or> \<not> str_contains (CHR ''.'') value
      then Inl (ValueError (name @ '' must contain '' @ [CHR 0x27] @ ''@'' @ [CHR 0x27]
                              @ '' and '' @ [CHR 0x27] @ ''.'' @ [CHR 0x27]))
      else Inr ())"

definition validate_last_login :: "pyval \<Rightarrow> string \<Rightarrow> outcome" where
  "validate_last_login value name =
     (if value \<noteq> PyNone \<and> \<not> isinstance_datetime value
      then Inl (ValueError (name @ '' must be a datetime object or None''))
      else Inr ())"

section \<open>The ValidatedProperty descriptor\<close>

text \<open>
  A descriptor holds its validator, its name and the dictionary \<open>self.values\<close>
  (the field \<open>vals\<close>), a \<open>WeakKeyDictionary\<close> from instances to the values
  assigned to them. The type \<open>'i\<close> is the type of profile instances, which Python
  hashes and compares by identity.
\<close>

record 'i ValidatedProperty =
  validator :: "(pyval \<Rightarrow> string \<Rightarrow> outcome) option"
  vals :: "'i \<rightharpoonup> pyval"
  name :: string

text \<open>
  What the class body does for each property: \<open>__init__\<close> with the validator, then
  \<open>__set_name__\<close> with the attribute's name.
\<close>

definition ValidatedProperty_init ::
  "(pyval \<Rightarrow> string \<Rightarrow> outcome) option \<Rightarrow> string \<Rightarrow> 'i ValidatedProperty" where
  "ValidatedProperty_init vd nm = \<lparr>validator = vd, vals = Map.empty, name = nm\<rparr>"

text \<open>The class \<open>UserProfileManager\<close>: its cache, its default and its three descriptors.\<close>

record 'i UserProfileManager =
  cache :: "int \<rightharpoonup> 'i"
  default_last_login :: pyval
  username :: "'i ValidatedProperty"
  email :: "'i ValidatedProperty"
  last_login :: "'i ValidatedProperty"

definition UserProfileManager_init :: "'i UserProfileManager" where
  "UserProfileManager_init =
     \<lparr>cache = Map.empty,
      default_last_login = PyNone,
      username = ValidatedProperty_init (Some validate_username) ''username'',
      email = ValidatedProperty_init (Some validate_email) ''email'',
      last_login = ValidatedProperty_init (Some validate_last_login) ''last_login''\<rparr>"

text \<open>
  \<open>__get__\<close>: the descriptor itself when read on the class, otherwise the value.
\<close>

datatype 'i got = Descriptor "'i ValidatedProperty" | Value pyval

definition ValidatedProperty_get ::
  "'i ValidatedProperty \<Rightarrow> 'i option \<Rightarrow> 'i UserProfileManager \<Rightarrow> 'i got" where
  "ValidatedProperty_get self inst owner_class =
     (case inst of
        None \<Rightarrow> Descriptor self
      | Some i \<Rightarrow>
          if name self = ''last_login'' \<and> vals self i = None
          then Value (default_last_login owner_class)
          else Value (case vals self i of None \<Rightarrow> PyNone | Some v \<Rightarrow> v))"

text \<open>\<open>__set__\<close>: validate, then store; a raising validator stores nothing.\<close>

definition ValidatedProperty_set ::
  "'i ValidatedProperty \<Rightarrow> 'i \<Rightarrow> pyval \<Rightarrow> outcome \<times> 'i ValidatedProperty" where
  "ValidatedProperty_set self i value =
     (case (case validator self of
              None \<Rightarrow> Inr ()
            | Some f \<Rightarrow> f value (name self)) of
        Inl e \<Rightarrow> (Inl e, self)
      | Inr _ \<Rightarrow> (Inr (), self\<lparr>vals := (vals self)(i \<mapsto> value)\<rparr>))"

section \<open>Attribute access on a profile instance\<close>

text \<open>
  Reading \<open>p.username\<close> calls \<open>__get__\<close> of the class's descriptor with the
  instance and the class; assigning \<open>p.username = v\<close> calls its \<open>__set__\<close>,
  which changes the descriptor's dictionary. The same holds for the other two properties.
\<close>

definition get_username :: "'i UserProfileManager \<Rightarrow> 'i \<Rightarrow> 'i got" where
  "get_username cls i = ValidatedProperty_get (username cls) (Some i) cls"

definition get_email :: "'i UserProfileManager \<Rightarrow> 'i \<Rightarrow> 'i got" where
  "get_email cls i = ValidatedProperty_get (email cls) (Some i) cls"

definition get_last_login :: "'i UserProfileManager \<Rightarrow> 'i \<Rightarrow> 'i got" where
  "get_last_login cls i = ValidatedProperty_get (last_login cls) (Some i) cls"

definition set_username ::
  "'i UserProfileManager \<Rightarrow> 'i \<Rightarrow> pyval \<Rightarrow> outcome \<times> 'i UserProfileManager" where
  "set_username cls i value =
     (case ValidatedProperty_set (username cls) i value of
        (r, d) \<Rightarrow> (r, cls\<lparr>username := d\<rparr>))"

definition set_email ::
  "'i UserProfileManager \<Rightarrow> 'i \<Rightarrow> pyval \<Rightarrow> outcome \<times> 'i UserProfileManager" where
  "set_email cls i value =
     (case ValidatedProperty_set (email cls) i value of
        (r, d) \<Rightarrow> (r, cls\<lparr>email := d\<rparr>))"

definition set_last_login ::
  "'i UserProfileManager \<Rightarrow> 'i \<Rightarrow> pyval \<Rightarrow> outcome \<times> 'i UserProfileManager" where
  "set_last_login cls i value =
     (case ValidatedProperty_set (last_login cls) i value of
        (r, d) \<Rightarrow> (r, cls\<lparr>last_login := d\<rparr>))"

text \<open>\<open>UserProfileManager.default_last_login = d\<close>, a plain class attribute.\<close>

definition set_default_last_login ::
  "pyval \<Rightarrow> 'i UserProfileManager \<Rightarrow> 'i UserProfileManager" where
  "set_default_last_login d cls = cls\<lparr>default_last_login := d\<rparr>"

section \<open>The cache\<close>

text \<open>
  \<open>add_to_cache\<close> stores the instance under \<open>id(instance)\<close>. The builtin
  \<open>id\<close> is the parameter \<open>ident\<close>.
\<close>

definition add_to_cache ::
  "('i \<Rightarrow> int) \<Rightarrow> 'i UserProfileManager \<Rightarrow> 'i \<Rightarrow> 'i UserProfileManager" where
  "add_to_cache ident cls inst = cls\<lparr>cache := (cache cls)(ident inst \<mapsto> inst)\<rparr>"

definition get_from_cache :: "'i UserProfileManager \<Rightarrow> int \<Rightarrow> 'i option" where
  "get_from_cache cls instance_id = cache cls instance_id"

text \<open>
  The cache is a \<open>WeakValueDictionary\<close> and each \<open>self.values\<close> a
  \<open>WeakKeyDictionary\<close>. When the runtime reclaims an instance, a weak-value
  dictionary drops every entry whose value is that instance and a weak-key dictionary
  drops the entry whose key it is. \<open>reclaim\<close> is that event.
\<close>

definition drop_key :: "'i \<Rightarrow> 'i ValidatedProperty \<Rightarrow> 'i ValidatedProperty" where
  "drop_key inst self = self\<lparr>vals := (vals self)(inst := None)\<rparr>"

definition reclaim :: "'i \<Rightarrow> 'i UserProfileManager \<Rightarrow> 'i UserProfileManager" where
  "reclaim inst cls =
     cls\<lparr>cache := (\<lambda>k. if cache cls k = Some inst then None else cache cls k),
         username := drop_key inst (username cls),
         email := drop_key inst (email cls),
         last_login := drop_key inst (last_login cls)\<rparr>"

section \<open>Runs of the module\<close>

text \<open>
  What a client can do to the class state, one operation at a time. An assignment that
  raises leaves the state that \<open>__set__\<close> left; the client goes on from there.
\<close>

datatype 'i op =
    SetUsername 'i pyval
  | SetEmail 'i pyval
  | SetLastLogin 'i pyval
  | SetDefault pyval
  | AddToCache 'i
  | Reclaim 'i

fun step :: "('i \<Rightarrow> int) \<Rightarrow> 'i op \<Rightarrow> 'i UserProfileManager \<Rightarrow> 'i UserProfileManager" where
  "step ident (SetUsername i v) cls = snd (set_username cls i v)"
| "step ident (SetEmail i v) cls = snd (set_email cls i v)"
| "step ident (SetLastLogin i v) cls = snd (set_last_login cls i v)"
| "step ident (SetDefault d) cls = set_default_last_login d cls"
| "step ident (AddToCache i) cls = add_to_cache ident cls i"
| "step ident (Reclaim i) cls = reclaim i cls"

fun run :: "('i \<Rightarrow> int) \<Rightarrow> 'i op list \<Rightarrow> 'i UserProfileManager \<Rightarrow> 'i UserProfileManager" where
  "run ident [] cls = cls"
| "run ident (x # xs) cls = run ident xs (step ident x cls)"

text \<open>
  The class as its body declares it: each descriptor has the validator and the name it
  was created with. No operation changes either.
\<close>

definition declared :: "'i UserProfileManager \<Rightarrow> bool" where
  "declared cls \<longleftrightarrow>
     validator (username cls) = Some validate_username \<and> name (username cls) = ''username'' \<and>
     validator (email cls) = Some validate_email \<and> name (email cls) = ''email'' \<and>
     validator (last_login cls) = Some validate_last_login \<and>
     name (last_login cls) = ''last_login''"

section \<open>Vocabulary of the properties\<close>

text \<open>The message an exception carries, and whether a text begins with another.\<close>

fun message :: "error \<Rightarrow> string" where
  "message (ValueError m) = m"

definition starts_with :: "string \<Rightarrow> string \<Rightarrow> bool" where
  "starts_with p s \<longleftrightarrow> take (length p) s = p"

text \<open>
  Which operations of a run assign \<open>last_login\<close> of an instance, reclaim an instance,
  or insert an instance into the cache under a given key.
\<close>

fun writes_last_login :: "'i \<Rightarrow> 'i op \<Rightarrow> bool" where
  "writes_last_login i (SetLastLogin j v) = (j = i)"
| "writes_last_login i _ = False"

fun reclaims :: "'i \<Rightarrow> 'i op \<Rightarrow> bool" where
  "reclaims i (Reclaim j) = (j = i)"
| "reclaims i _ = False"

fun inserts_under :: "('i \<Rightarrow> int) \<Rightarrow> int \<Rightarrow> 'i op \<Rightarrow> bool" where
  "inserts_under ident k (AddToCache e) = (ident e = k)"
| "inserts_under ident k _ = False"

text \<open>Every cache entry sits under the identity of the instance it holds.\<close>

definition keyed :: "('i \<Rightarrow> int) \<Rightarrow> 'i UserProfileManager \<Rightarrow> bool" where
  "keyed ident cls \<longleftrightarrow> (\<forall>k e. cache cls k = Some e \<longrightarrow> ident e = k)"

section \<open>Basic facts\<close>

lemma declared_init: "declared UserProfileManager_init"
  by (simp add: declared_def UserProfileManager_init_def ValidatedProperty_init_def)

lemma ValidatedProperty_set_validator:
  "validator (snd (ValidatedProperty_set d i v)) = validator d"
  by (simp add: ValidatedProperty_set_def split: option.splits sum.splits)

lemma ValidatedProperty_set_name:
  "name (snd (ValidatedProperty_set d i v)) = name d"
  by (simp add: ValidatedProperty_set_def split: option.splits sum.splits)

lemma declared_step: "declared cls \<Longrightarrow> declared (step ident x cls)"
  by (cases x)
     (simp_all add: declared_def set_username_def set_email_def set_last_login_def
        set_default_last_login_def add_to_cache_def reclaim_def drop_key_def
        ValidatedProperty_set_validator ValidatedProperty_set_name split: prod.splits,
      (metis ValidatedProperty_set_validator ValidatedProperty_set_name snd_conv)+)

lemma declared_run: "declared cls \<Longrightarrow> declared (run ident xs cls)"
  by (induction xs arbitrary: cls) (simp_all add: declared_step)

lemmas set_defs = set_username_def set_email_def set_last_login_def ValidatedProperty_set_def

lemmas get_defs = get_username_def get_email_def get_last_login_def ValidatedProperty_get_def

lemmas run_defs = set_defs get_defs UserProfileManager_init_def ValidatedProperty_init_def
  validate_username_def validate_email_def validate_last_login_def
  set_default_last_login_def add_to_cache_def get_from_cache_def reclaim_def drop_key_def

lemma init_fields [simp]:
  "vals (username UserProfileManager_init) i = None"
  "vals (email UserProfileManager_init) i = None"
  "vals (last_login UserProfileManager_init) i = None"
  "cache UserProfileManager_init k = None"
  "default_last_login UserProfileManager_init = PyNone"
  by (simp_all add: UserProfileManager_init_def ValidatedProperty_init_def)

subsection \<open>What an assignment leaves alone\<close>

lemma set_last_login_fields [simp]:
  "cache (snd (set_last_login cls i v)) = cache cls"
  "default_last_login (snd (set_last_login cls i v)) = default_last_login cls"
  "username (snd (set_last_login cls i v)) = username cls"
  "email (snd (set_last_login cls i v)) = email cls"
  by (simp_all add: set_defs split: option.splits sum.splits)

lemma set_username_fields [simp]:
  "cache (snd (set_username cls i v)) = cache cls"
  "default_last_login (snd (set_username cls i v)) = default_last_login cls"
  "email (snd (set_username cls i v)) = email cls"
  "last_login (snd (set_username cls i v)) = last_login cls"
  by (simp_all add: set_defs split: option.splits sum.splits)

lemma set_email_fields [simp]:
  "cache (snd (set_email cls i v)) = cache cls"
  "default_last_login (snd (set_email cls i v)) = default_last_login cls"
  "username (snd (set_email cls i v)) = username cls"
  "last_login (snd (set_email cls i v)) = last_login cls"
  by (simp_all add: set_defs split: option.splits sum.splits)

lemma set_last_login_other:
  "j \<noteq> i \<Longrightarrow> vals (last_login (snd (set_last_login cls j v))) i = vals (last_login cls) i"
  by (simp add: set_defs split: option.splits sum.splits)

subsection \<open>The last_login dictionary along a run\<close>

lemma step_last_login_vals:
  "\<not> writes_last_login i x \<Longrightarrow> \<not> reclaims i x \<Longrightarrow>
   vals (last_login (step ident x cls)) i = vals (last_login cls) i"
  by (cases x)
     (auto simp: set_last_login_other set_default_last_login_def add_to_cache_def
        reclaim_def drop_key_def)

lemma step_last_login_unwritten:
  "\<not> writes_last_login i x \<Longrightarrow> vals (last_login cls) i = None \<Longrightarrow>
   vals (last_login (step ident x cls)) i = None"
  by (cases x)
     (auto simp: set_last_login_other set_default_last_login_def add_to_cache_def
        reclaim_def drop_key_def)

lemma run_last_login_vals:
  "\<forall>x\<in>set xs. \<not> writes_last_login i x \<and> \<not> reclaims i x \<Longrightarrow>
   vals (last_login (run ident xs cls)) i = vals (last_login cls) i"
  by (induction xs arbitrary: cls) (simp_all add: step_last_login_vals)

lemma run_last_login_unwritten:
  "\<forall>x\<in>set xs. \<not> writes_last_login i x \<Longrightarrow> vals (last_login cls) i = None \<Longrightarrow>
   vals (last_login (run ident xs cls)) i = None"
  by (induction xs arbitrary: cls) (simp_all add: step_last_login_unwritten)

subsection \<open>The cache along a run\<close>

lemma keyed_init: "keyed ident UserProfileManager_init"
  by (simp add: keyed_def)

lemma keyed_step: "keyed ident cls \<Longrightarrow> keyed ident (step ident x cls)"
  unfolding keyed_def
  by (cases x)
     (auto simp: add_to_cache_def reclaim_def set_default_last_login_def split: if_splits)

lemma keyed_run: "keyed ident cls \<Longrightarrow> keyed ident (run ident xs cls)"
  by (induction xs arbitrary: cls) (simp_all add: keyed_step)

lemma run_cache_absent:
  "\<forall>x\<in>set xs. \<not> inserts_under ident k x \<Longrightarrow> cache cls k = None \<Longrightarrow>
   cache (run ident xs cls) k = None"
proof (induction xs arbitrary: cls)
  case Nil
  then show ?case by simp
next
  case (Cons x xs)
  have "cache (step ident x cls) k = None"
    using Cons.prems
    by (cases x) (auto simp: add_to_cache_def reclaim_def set_default_last_login_def)
  with Cons show ?case by simp
qed

lemma run_cache_kept:
  "\<forall>x\<in>set xs. \<not> inserts_under ident k x \<and> \<not> reclaims e x \<Longrightarrow> cache cls k = Some e \<Longrightarrow>
   cache (run ident xs cls) k = Some e"
proof (induction xs arbitrary: cls)
  case Nil
  then show ?case by simp
next
  case (Cons x xs)
  have "cache (step ident x cls) k = Some e"
    using Cons.prems
    by (cases x) (auto simp: add_to_cache_def reclaim_def set_default_last_login_def)
  with Cons show ?case by simp
qed

section \<open>The claims\<close>

text \<open>
  C1. For every non-empty string and every profile instance, assigning the string to
  \<open>username\<close> raises nothing, and reading \<open>username\<close> of that instance afterwards
  returns the string.
\<close>

theorem username_roundtrip:
  assumes "declared cls" and "t \<noteq> []"
  shows "fst (set_username cls i (PyStr t)) = Inr () \<and>
         get_username (snd (set_username cls i (PyStr t))) i = Value (PyStr t)"
  using assms
  by (simp add: declared_def set_defs get_defs validate_username_def)

theorem username_roundtrip_witness:
  "declared (UserProfileManager_init :: nat UserProfileManager) \<and> ''alice'' \<noteq> [] \<and>
   fst (set_username (UserProfileManager_init :: nat UserProfileManager) 1 (PyStr ''alice''))
     = Inr () \<and>
   get_username
     (snd (set_username (UserProfileManager_init :: nat UserProfileManager) 1 (PyStr ''alice''))) 1
     = Value (PyStr ''alice'')"
proof -
  have h: "''alice'' \<noteq> []" by simp
  show ?thesis
    using username_roundtrip [OF declared_init h, of "1::nat"] declared_init by simp
qed

text \<open>
  C2. Assigning a value to \<open>email\<close> raises nothing exactly when the value is a string
  that contains both \<open>@\<close> and \<open>.\<close>, and then a read returns the value; every
  other value, a string missing one of the two characters or a value that is no string,
  raises \<open>ValueError\<close>.
\<close>

theorem email_write_iff:
  assumes "declared cls"
  shows "(fst (set_email cls i v) = Inr () \<longleftrightarrow>
            (\<exists>t. v = PyStr t \<and> CHR ''@'' \<in> set t \<and> CHR ''.'' \<in> set t)) \<and>
         (fst (set_email cls i v) = Inr () \<longrightarrow>
            get_email (snd (set_email cls i v)) i = Value v) \<and>
         (\<not> (\<exists>t. v = PyStr t \<and> CHR ''@'' \<in> set t \<and> CHR ''.'' \<in> set t) \<longrightarrow>
            (\<exists>msg. fst (set_email cls i v) = Inl (ValueError msg)))"
  using assms
  by (cases v)
     (auto simp: declared_def set_defs get_defs validate_email_def split: sum.splits)

theorem email_write_iff_witness:
  "declared (UserProfileManager_init :: nat UserProfileManager) \<and>
   fst (set_email (UserProfileManager_init :: nat UserProfileManager) 1 (PyStr ''a@example.com''))
     = Inr () \<and>
   get_email
     (snd (set_email (UserProfileManager_init :: nat UserProfileManager) 1
        (PyStr ''a@example.com''))) 1
     = Value (PyStr ''a@example.com'') \<and>
   (\<exists>msg. fst (set_email (UserProfileManager_init :: nat UserProfileManager) 1
              (PyStr ''alice-example.com'')) = Inl (ValueError msg)) \<and>
   (\<exists>msg. fst (set_email (UserProfileManager_init :: nat UserProfileManager) 1 (PyInt 7))
              = Inl (ValueError msg))"
  using email_write_iff [OF declared_init, of "1::nat" "PyStr ''a@example.com''"]
    email_write_iff [OF declared_init, of "1::nat" "PyStr ''alice-example.com''"]
    email_write_iff [OF declared_init, of "1::nat" "PyInt 7"]
    declared_init
  by simp

text \<open>
  C3. For each of the three properties, an assignment raises exactly the error its
  validator raises on the value, and an assignment that raises leaves the class state as
  it was: every read of the property returns what it returned before.
\<close>

theorem rejected_write_unchanged:
  assumes "declared cls"
  shows "(fst (set_username cls i v) = Inl e \<longleftrightarrow> validate_username v ''username'' = Inl e) \<and>
         (fst (set_email cls i v) = Inl e \<longleftrightarrow> validate_email v ''email'' = Inl e) \<and>
         (fst (set_last_login cls i v) = Inl e \<longleftrightarrow>
            validate_last_login v ''last_login'' = Inl e) \<and>
         (fst (set_username cls i v) = Inl e \<longrightarrow>
            snd (set_username cls i v) = cls \<and>
            get_username (snd (set_username cls i v)) j = get_username cls j) \<and>
         (fst (set_email cls i v) = Inl e \<longrightarrow>
            snd (set_email cls i v) = cls \<and>
            get_email (snd (set_email cls i v)) j = get_email cls j) \<and>
         (fst (set_last_login cls i v) = Inl e \<longrightarrow>
            snd (set_last_login cls i v) = cls \<and>
            get_last_login (snd (set_last_login cls i v)) j = get_last_login cls j)"
  using assms
  by (auto simp: declared_def set_defs split: sum.splits)

theorem rejected_write_unchanged_witness:
  "declared (step int (SetUsername 1 (PyStr ''alice'')) (UserProfileManager_init :: nat UserProfileManager)) \<and>
   fst (set_username
          (step int (SetUsername 1 (PyStr ''alice'')) (UserProfileManager_init :: nat UserProfileManager))
          1 (PyStr [])) = Inl (ValueError ''username must be a non-empty string'') \<and>
   get_username
     (snd (set_username
          (step int (SetUsername 1 (PyStr ''alice'')) (UserProfileManager_init :: nat UserProfileManager))
          1 (PyStr []))) 1 = Value (PyStr ''alice'')"
proof -
  let ?cls = "step int (SetUsername 1 (PyStr ''alice''))
                (UserProfileManager_init :: nat UserProfileManager)"
  have d: "declared ?cls" by (rule declared_step [OF declared_init])
  have v: "validate_username (PyStr []) ''username'' =
             Inl (ValueError ''username must be a non-empty string'')"
    by (simp add: validate_username_def)
  have g: "get_username ?cls 1 = Value (PyStr ''alice'')"
    by (simp add: run_defs)
  show ?thesis
    using rejected_write_unchanged [OF d, of 1 "PyStr []"
        "ValueError ''username must be a non-empty string''" 1] d v g
    by simp
qed

text \<open>
  C4. Assigning \<open>None\<close> to \<open>last_login\<close> never raises, and assigning a value that is
  neither \<open>None\<close> nor a \<open>datetime\<close> raises \<open>ValueError\<close>.
\<close>

theorem last_login_write:
  assumes "declared cls"
  shows "fst (set_last_login cls i PyNone) = Inr () \<and>
         (v \<noteq> PyNone \<and> (\<forall>d. v \<noteq> PyDatetime d) \<longrightarrow>
            (\<exists>msg. fst (set_last_login cls i v) = Inl (ValueError msg)))"
  using assms
  by (cases v) (auto simp: declared_def set_defs validate_last_login_def)

theorem last_login_write_witness:
  "declared (UserProfileManager_init :: nat UserProfileManager) \<and>
   PyStr ''yesterday'' \<noteq> PyNone \<and> (\<forall>d. PyStr ''yesterday'' \<noteq> PyDatetime d) \<and>
   fst (set_last_login (UserProfileManager_init :: nat UserProfileManager) 1 PyNone) = Inr () \<and>
   (\<exists>msg. fst (set_last_login (UserProfileManager_init :: nat UserProfileManager) 1
              (PyStr ''yesterday'')) = Inl (ValueError msg))"
  using last_login_write [OF declared_init, of "1::nat" "PyStr ''yesterday''"] declared_init
  by simp

text \<open>
  C5. In every run from the creation of the class in which \<open>last_login\<close> of an instance
  is never assigned, reading it returns the class attribute \<open>default_last_login\<close> as it
  is at the time of the read; after the default is changed, the read returns the new
  default.
\<close>

theorem unwritten_last_login_reads_default:
  assumes "\<forall>x\<in>set xs. \<not> writes_last_login i x"
  shows "get_last_login (run ident xs UserProfileManager_init) i =
           Value (default_last_login (run ident xs UserProfileManager_init)) \<and>
         get_last_login (set_default_last_login d (run ident xs UserProfileManager_init)) i =
           Value d"
proof -
  let ?cls = "run ident xs UserProfileManager_init"
  have d: "declared ?cls" by (rule declared_run [OF declared_init])
  have u: "vals (last_login ?cls) i = None"
    using assms by (simp add: run_last_login_unwritten)
  from d u show ?thesis
    by (simp add: declared_def get_defs set_default_last_login_def)
qed

theorem unwritten_last_login_reads_default_witness:
  "get_last_login
     (run int [SetUsername (1::nat) (PyStr ''alice''), SetLastLogin 2 PyNone]
        UserProfileManager_init) 1 = Value PyNone \<and>
   get_last_login
     (set_default_last_login (PyDatetime (Datetime 2024 1 2 3 4 5 0))
        (run int [SetUsername (1::nat) (PyStr ''alice''), SetLastLogin 2 PyNone]
           UserProfileManager_init)) 1
     = Value (PyDatetime (Datetime 2024 1 2 3 4 5 0))"
proof -
  have h: "\<forall>x\<in>set [SetUsername (1::nat) (PyStr ''alice''), SetLastLogin 2 PyNone].
             \<not> writes_last_login 1 x"
    by simp
  show ?thesis
    using unwritten_last_login_reads_default
      [OF h, of int "PyDatetime (Datetime 2024 1 2 3 4 5 0)"]
    by (simp add: run_defs)
qed

text \<open>
  C7. Reading \<open>username\<close>, \<open>email\<close> or \<open>last_login\<close> of an instance always returns
  a value: the stored one if the dictionary holds one for the instance, otherwise
  \<open>None\<close> for \<open>username\<close> and \<open>email\<close> and the class default for \<open>last_login\<close>.
\<close>

theorem reads_never_fail:
  assumes "declared cls"
  shows "get_username cls i =
           Value (case vals (username cls) i of None \<Rightarrow> PyNone | Some v \<Rightarrow> v) \<and>
         get_email cls i =
           Value (case vals (email cls) i of None \<Rightarrow> PyNone | Some v \<Rightarrow> v) \<and>
         get_last_login cls i =
           Value (case vals (last_login cls) i of
                    None \<Rightarrow> default_last_login cls | Some v \<Rightarrow> v)"
  using assms by (simp add: declared_def get_defs split: option.splits)

theorem reads_never_fail_witness:
  "declared (run int [SetUsername (1::nat) (PyStr ''alice''),
               SetDefault (PyDatetime (Datetime 2024 1 2 3 4 5 0))] UserProfileManager_init) \<and>
   get_username (run int [SetUsername (1::nat) (PyStr ''alice''),
               SetDefault (PyDatetime (Datetime 2024 1 2 3 4 5 0))] UserProfileManager_init) 1
     = Value (PyStr ''alice'') \<and>
   get_email (run int [SetUsername (1::nat) (PyStr ''alice''),
               SetDefault (PyDatetime (Datetime 2024 1 2 3 4 5 0))] UserProfileManager_init) 1
     = Value PyNone \<and>
   get_last_login (run int [SetUsername (1::nat) (PyStr ''alice''),
               SetDefault (PyDatetime (Datetime 2024 1 2 3 4 5 0))] UserProfileManager_init) 1
     = Value (PyDatetime (Datetime 2024 1 2 3 4 5 0))"
proof -
  let ?cls = "run int [SetUsername (1::nat) (PyStr ''alice''),
               SetDefault (PyDatetime (Datetime 2024 1 2 3 4 5 0))] UserProfileManager_init"
  have d: "declared ?cls" by (rule declared_run [OF declared_init])
  have v: "vals (username ?cls) 1 = Some (PyStr ''alice'')"
    "vals (email ?cls) 1 = None" "vals (last_login ?cls) 1 = None"
    "default_last_login ?cls = PyDatetime (Datetime 2024 1 2 3 4 5 0)"
    by (simp_all add: run_defs)
  show ?thesis
    using reads_never_fail [OF d, of 1] d v by simp
qed

text \<open>
  C10. After \<open>None\<close> is assigned to \<open>last_login\<close> of an instance, reading it returns
  \<open>None\<close>, whatever the class default is set to afterwards, for as long as the
  instance is neither assigned again nor reclaimed.
\<close>

theorem written_None_shadows_default:
  assumes "declared cls"
    and "\<forall>x\<in>set xs. \<not> writes_last_login i x \<and> \<not> reclaims i x"
  shows "fst (set_last_login cls i PyNone) = Inr () \<and>
         get_last_login (run ident xs (snd (set_last_login cls i PyNone))) i = Value PyNone"
proof -
  let ?c1 = "snd (set_last_login cls i PyNone)"
  have ok: "fst (set_last_login cls i PyNone) = Inr ()"
    and st: "vals (last_login ?c1) i = Some PyNone"
    using assms(1) by (simp_all add: declared_def set_defs validate_last_login_def)
  have "vals (last_login (run ident xs ?c1)) i = Some PyNone"
    using assms(2) st by (simp add: run_last_login_vals)
  then have "get_last_login (run ident xs ?c1) i = Value PyNone"
    by (simp add: get_defs)
  with ok show ?thesis by simp
qed

theorem written_None_shadows_default_witness:
  "declared (UserProfileManager_init :: nat UserProfileManager) \<and>
   get_last_login
     (run int [SetDefault (PyDatetime (Datetime 2024 1 2 3 4 5 0)), AddToCache (1::nat)]
        (snd (set_last_login UserProfileManager_init 1 PyNone))) 1 = Value PyNone \<and>
   get_last_login
     (run int [SetDefault (PyDatetime (Datetime 2024 1 2 3 4 5 0)), AddToCache (1::nat)]
        (snd (set_last_login UserProfileManager_init 1 PyNone))) 2
     = Value (PyDatetime (Datetime 2024 1 2 3 4 5 0))"
proof -
  have h: "\<forall>x\<in>set [SetDefault (PyDatetime (Datetime 2024 1 2 3 4 5 0)), AddToCache (1::nat)].
             \<not> writes_last_login 1 x \<and> \<not> reclaims 1 x"
    by simp
  have o: "get_last_login
     (run int [SetDefault (PyDatetime (Datetime 2024 1 2 3 4 5 0)), AddToCache (1::nat)]
        (snd (set_last_login UserProfileManager_init 1 PyNone))) 2
     = Value (PyDatetime (Datetime 2024 1 2 3 4 5 0))"
    by (simp add: run_defs)
  show ?thesis
    using written_None_shadows_default [OF declared_init h, of int] o declared_init
    by simp
qed

text \<open>
  C6. Every message a validator raises begins with the field name followed by
  \<open>must\<close>: it is the name followed by \<open>must be a non-empty string\<close>,
  \<open>must be a string\<close>, \<open>must contain '@' and '.'\<close> or
  \<open>must be a datetime object or None\<close>.
\<close>

theorem message_form:
  "(validate_username v nm = Inl e \<longrightarrow>
      message e = nm @ '' must be a non-empty string'') \<and>
   (validate_email v nm = Inl e \<longrightarrow>
      message e = nm @ '' must be a string'' \<or>
      message e = nm @ '' must contain '' @ [CHR 0x27] @ ''@'' @ [CHR 0x27] @ '' and ''
                     @ [CHR 0x27] @ ''.'' @ [CHR 0x27]) \<and>
   (validate_last_login v nm = Inl e \<longrightarrow>
      message e = nm @ '' must be a datetime object or None'') \<and>
   (validate_username v nm = Inl e \<or> validate_email v nm = Inl e \<or>
    validate_last_login v nm = Inl e \<longrightarrow> starts_with (nm @ '' must '') (message e))"
  by (auto simp: validate_username_def validate_email_def validate_last_login_def
        starts_with_def split: if_splits)

theorem message_form_witness:
  "validate_email (PyStr ''alice-example.com'') ''email'' =
     Inl (ValueError (''email must contain '' @ [CHR 0x27] @ ''@'' @ [CHR 0x27] @ '' and ''
                        @ [CHR 0x27] @ ''.'' @ [CHR 0x27])) \<and>
   starts_with ''email must ''
     (message (ValueError (''email must contain '' @ [CHR 0x27] @ ''@'' @ [CHR 0x27]
                             @ '' and '' @ [CHR 0x27] @ ''.'' @ [CHR 0x27])))"
proof -
  have h: "validate_email (PyStr ''alice-example.com'') ''email'' =
     Inl (ValueError (''email must contain '' @ [CHR 0x27] @ ''@'' @ [CHR 0x27] @ '' and ''
                        @ [CHR 0x27] @ ''.'' @ [CHR 0x27]))"
    by (simp add: validate_email_def)
  show ?thesis
    using message_form [of "PyStr ''alice-example.com''" "''email''"
        "ValueError (''email must contain '' @ [CHR 0x27] @ ''@'' @ [CHR 0x27] @ '' and ''
                        @ [CHR 0x27] @ ''.'' @ [CHR 0x27])"] h
    by simp
qed

text \<open>
  The message for an e-mail string without \<open>@\<close> is not of the form
  \<open>email must be ...\<close>.
\<close>

theorem message_form_counterexample:
  "validate_email (PyStr ''alice-example.com'') ''email'' =
     Inl (ValueError (''email must contain '' @ [CHR 0x27] @ ''@'' @ [CHR 0x27] @ '' and ''
                        @ [CHR 0x27] @ ''.'' @ [CHR 0x27])) \<and>
   \<not> starts_with (''email'' @ '' must be'')
       (message (ValueError (''email must contain '' @ [CHR 0x27] @ ''@'' @ [CHR 0x27]
                               @ '' and '' @ [CHR 0x27] @ ''.'' @ [CHR 0x27])))"
  by (simp add: validate_email_def starts_with_def)

text \<open>
  C8. In a run from the creation of the class, a key under which nothing was inserted
  looks up to \<open>None\<close>; after \<open>add_to_cache\<close> of an instance, its key looks up to
  that instance for as long as nothing else is inserted under the key and the instance is
  not reclaimed; and the key of one instance never looks up to an instance with another
  key.
\<close>

theorem cache_lookup:
  "((\<forall>x\<in>set xs. \<not> inserts_under ident k x) \<longrightarrow>
      get_from_cache (run ident xs UserProfileManager_init) k = None) \<and>
   ((\<forall>x\<in>set ys. \<not> inserts_under ident (ident e) x \<and> \<not> reclaims e x) \<longrightarrow>
      get_from_cache (run ident ys (add_to_cache ident cls e)) (ident e) = Some e) \<and>
   (ident e1 \<noteq> ident e2 \<longrightarrow>
      get_from_cache (run ident zs UserProfileManager_init) (ident e1) \<noteq> Some e2)"
proof (intro conjI impI)
  assume "\<forall>x\<in>set xs. \<not> inserts_under ident k x"
  then show "get_from_cache (run ident xs UserProfileManager_init) k = None"
    by (simp add: get_from_cache_def run_cache_absent)
next
  assume "\<forall>x\<in>set ys. \<not> inserts_under ident (ident e) x \<and> \<not> reclaims e x"
  moreover have "cache (add_to_cache ident cls e) (ident e) = Some e"
    by (simp add: add_to_cache_def)
  ultimately show "get_from_cache (run ident ys (add_to_cache ident cls e)) (ident e) = Some e"
    by (simp add: get_from_cache_def run_cache_kept)
next
  assume ne: "ident e1 \<noteq> ident e2"
  have "keyed ident (run ident zs UserProfileManager_init)"
    by (rule keyed_run [OF keyed_init])
  with ne show "get_from_cache (run ident zs UserProfileManager_init) (ident e1) \<noteq> Some e2"
    by (auto simp: keyed_def get_from_cache_def)
qed

theorem cache_lookup_witness:
  "get_from_cache
     (run int [AddToCache (2::nat), SetUsername 1 (PyStr ''alice'')] UserProfileManager_init) 1
     = None \<and>
   get_from_cache
     (run int [AddToCache (2::nat), Reclaim 2] (add_to_cache int UserProfileManager_init 1)) (int 1)
     = Some 1 \<and>
   int 1 \<noteq> int 2 \<and>
   get_from_cache
     (run int [AddToCache (1::nat), AddToCache 2] UserProfileManager_init) (int 1) \<noteq> Some 2"
proof -
  have h1: "\<forall>x\<in>set [AddToCache (2::nat), SetUsername 1 (PyStr ''alice'')].
              \<not> inserts_under int 1 x"
    by simp
  have h2: "\<forall>x\<in>set [AddToCache (2::nat), Reclaim 2].
              \<not> inserts_under int (int 1) x \<and> \<not> reclaims 1 x"
    by simp
  have h3: "int 1 \<noteq> int 2" by simp
  show ?thesis
    using cache_lookup [of "[AddToCache (2::nat), SetUsername 1 (PyStr ''alice'')]" int 1
        "[AddToCache (2::nat), Reclaim 2]" 1 UserProfileManager_init 1 2
        "[AddToCache (1::nat), AddToCache 2]"] h1 h2 h3
    by simp
qed

end
